theory Spec2Isabelle
  imports Complex_Main
begin

section \<open>The resource monitor of \<^verbatim>\<open>monitor.py\<close>\<close>

text \<open>
  A shallow embedding of the class \<^verbatim>\<open>ResourceMonitor\<close>. The object's attributes are the
  fields of one record that every method takes and returns; what a method reads from
  outside the process (psutil readings, the clocks, the answer of the HTTP request) is
  an explicit argument. Python floats are modelled by \<^typ>\<open>real\<close>, Python integers by
  \<^typ>\<open>int\<close>; rounding of floating-point arithmetic is not modelled. A Python string is
  the list of the bytes of its UTF-8 encoding, which is injective on strings.
\<close>

subsection \<open>Alerts\<close>

datatype AlertLevel = INFO | WARNING | CRITICAL | ERROR

text \<open>The member's value, \<^verbatim>\<open>level.value\<close>.\<close>

fun level_value :: "AlertLevel \<Rightarrow> string" where
  "level_value INFO = ''INFO''"
| "level_value WARNING = ''WARNING''"
| "level_value CRITICAL = ''CRITICAL''"
| "level_value ERROR = ''ERROR''"

text \<open>
  The lookup by member name, \<^verbatim>\<open>AlertLevel[name]\<close>; \<open>None\<close> stands for the
  \<^verbatim>\<open>KeyError\<close> of a name that is no member.
\<close>

definition level_by_name :: "string \<Rightarrow> AlertLevel option" where
  "level_by_name s =
     (if s = ''INFO'' then Some INFO
      else if s = ''WARNING'' then Some WARNING
      else if s = ''CRITICAL'' then Some CRITICAL
      else if s = ''ERROR'' then Some ERROR
      else None)"

text \<open>A naive \<^verbatim>\<open>datetime\<close>, as \<^verbatim>\<open>datetime.now()\<close> returns it.\<close>

record datetime =
  year :: nat
  month :: nat
  day :: nat
  hour :: nat
  minute :: nat
  second :: nat
  microsecond :: nat

text \<open>
  The class \<^verbatim>\<open>Alert\<close>. Its attribute \<^verbatim>\<open>value\<close> is the field \<open>alert_value\<close> here.
\<close>

record Alert =
  level :: AlertLevel
  resource :: string
  message :: string
  alert_value :: real
  threshold :: real
  timestamp :: datetime

subsection \<open>Configuration\<close>

text \<open>
  The configuration is a nested dictionary that every method reads with
  \<^verbatim>\<open>.get(key, default)\<close>. Each option the monitor reads is a field holding \<open>None\<close>
  when the key (or a dictionary on the way to it) is absent, and the reading functions
  below supply the defaults written in the source.
\<close>

record Config =
  notification_cooldown_seconds :: "real option"
  cpu_enabled :: "bool option"
  cpu_threshold :: "real option"
  memory_enabled :: "bool option"
  memory_threshold :: "real option"
  disk_enabled :: "bool option"
  disk_threshold :: "real option"
  disk_paths :: "string list option"
  network_enabled :: "bool option"
  threshold_sent_mbps :: "real option"
  threshold_recv_mbps :: "real option"
  telegram_enabled :: "bool option"
  bot_token :: "string option"
  chat_id :: "string option"

text \<open>\<^verbatim>\<open>d.get(key, default)\<close> on an optional field.\<close>

definition get_default :: "'a option \<Rightarrow> 'a \<Rightarrow> 'a" where
  "get_default v d = (case v of None \<Rightarrow> d | Some x \<Rightarrow> x)"

subsection \<open>The monitor's state\<close>

record Metrics =
  cpu_percent :: real
  memory_percent :: real
  disk_percent :: real
  network_sent_speed :: real
  network_recv_speed :: real

text \<open>
  The value under \<^verbatim>\<open>stats["start_time"]\<close>: the constructor sets it to the
  \<^verbatim>\<open>datetime\<close> object \<^verbatim>\<open>datetime.now()\<close>; a state file can only supply a JSON value,
  here a string.
\<close>

datatype StartTime = Datetime_object datetime | Json_string string

record Stats =
  checks :: int
  alerts_triggered :: int
  notifications_sent :: int
  start_time :: StartTime

text \<open>\<^verbatim>\<open>psutil.net_io_counters()\<close>: the cumulative byte counters.\<close>

record NetIO =
  bytes_sent :: int
  bytes_recv :: int

record Monitor =
  config :: Config
  prev_net_io :: NetIO
  prev_check_time :: real
  alert_history :: "Alert list"
  monitoring_enabled :: bool
  last_alert_times :: "string \<rightharpoonup> real"
  current_metrics :: Metrics
  stats :: Stats

subsection \<open>The cooldown gate\<close>

text \<open>
  \<^verbatim>\<open>can_send_alert\<close>. The first argument is the reading of \<^verbatim>\<open>time.time()\<close>. The key
  of the table is the f-string \<^verbatim>\<open>f"{resource}_{level.value}"\<close>; a key that is absent
  reads as the time \<open>0\<close>, the default of \<^verbatim>\<open>.get(key, 0)\<close>.
\<close>

definition cooldown_key :: "string \<Rightarrow> AlertLevel \<Rightarrow> string" where
  "cooldown_key res lvl = res @ ''_'' @ level_value lvl"

definition can_send_alert :: "real \<Rightarrow> string \<Rightarrow> AlertLevel \<Rightarrow> Monitor \<Rightarrow> bool \<times> Monitor" where
  "can_send_alert current_time res lvl m =
     (let cooldown = get_default (notification_cooldown_seconds (config m)) 300;
          key = cooldown_key res lvl;
          last_time = get_default (last_alert_times m key) 0
      in if current_time - last_time < cooldown then (False, m)
         else (True, m\<lparr>last_alert_times := (last_alert_times m)(key \<mapsto> current_time)\<rparr>))"

subsection \<open>The texts of the alerts\<close>

text \<open>
  The resource names and messages of the source are Russian; they are given by the bytes
  of their UTF-8 encoding: \<open>resource_memory\<close> is the word for memory,
  \<open>resource_disk_prefix\<close> the word for disk followed by a space,
  \<open>resource_net_sent\<close> and \<open>resource_net_recv\<close> name the outgoing and the incoming
  network traffic, and each message says that the use (or the rate) exceeded the
  threshold.
\<close>

definition resource_cpu :: string where
  "resource_cpu = ''CPU''"

definition resource_memory :: string where
  "resource_memory =
     [CHR 0xD0, CHR 0x9F, CHR 0xD0, CHR 0xB0, CHR 0xD0, CHR 0xBC, CHR 0xD1, CHR 0x8F, CHR 0xD1,
      CHR 0x82, CHR 0xD1, CHR 0x8C]"

definition resource_disk_prefix :: string where
  "resource_disk_prefix =
     [CHR 0xD0, CHR 0x94, CHR 0xD0, CHR 0xB8, CHR 0xD1, CHR 0x81, CHR 0xD0, CHR 0xBA, CHR '' '']"

definition resource_net_sent :: string where
  "resource_net_sent =
     [CHR 0xD0, CHR 0xA1, CHR 0xD0, CHR 0xB5, CHR 0xD1, CHR 0x82, CHR 0xD1, CHR 0x8C,
      CHR '' '', CHR ''('', CHR 0xD0, CHR 0xB8, CHR 0xD1, CHR 0x81, CHR 0xD1, CHR 0x85,
      CHR 0xD0, CHR 0xBE, CHR 0xD0, CHR 0xB4, CHR 0xD1, CHR 0x8F, CHR 0xD1, CHR 0x89, CHR 0xD0,
      CHR 0xB8, CHR 0xD0, CHR 0xB9, CHR '' '', CHR 0xD1, CHR 0x82, CHR 0xD1, CHR 0x80,
      CHR 0xD0, CHR 0xB0, CHR 0xD1, CHR 0x84, CHR 0xD0, CHR 0xB8, CHR 0xD0, CHR 0xBA, CHR '')'']"

definition resource_net_recv :: string where
  "resource_net_recv =
     [CHR 0xD0, CHR 0xA1, CHR 0xD0, CHR 0xB5, CHR 0xD1, CHR 0x82, CHR 0xD1, CHR 0x8C,
      CHR '' '', CHR ''('', CHR 0xD0, CHR 0xB2, CHR 0xD1, CHR 0x85, CHR 0xD0, CHR 0xBE,
      CHR 0xD0, CHR 0xB4, CHR 0xD1, CHR 0x8F, CHR 0xD1, CHR 0x89, CHR 0xD0, CHR 0xB8, CHR 0xD0,
      CHR 0xB9, CHR '' '', CHR 0xD1, CHR 0x82, CHR 0xD1, CHR 0x80, CHR 0xD0, CHR 0xB0,
      CHR 0xD1, CHR 0x84, CHR 0xD0, CHR 0xB8, CHR 0xD0, CHR 0xBA, CHR '')'']"

definition message_cpu :: string where
  "message_cpu =
     [CHR 0xD0, CHR 0x98, CHR 0xD1, CHR 0x81, CHR 0xD0, CHR 0xBF, CHR 0xD0, CHR 0xBE, CHR 0xD0,
      CHR 0xBB, CHR 0xD1, CHR 0x8C, CHR 0xD0, CHR 0xB7, CHR 0xD0, CHR 0xBE, CHR 0xD0, CHR 0xB2,
      CHR 0xD0, CHR 0xB0, CHR 0xD0, CHR 0xBD, CHR 0xD0, CHR 0xB8, CHR 0xD0, CHR 0xB5,
      CHR '' '', CHR ''C'', CHR ''P'', CHR ''U'', CHR '' '', CHR 0xD0, CHR 0xBF, CHR 0xD1,
      CHR 0x80, CHR 0xD0, CHR 0xB5, CHR 0xD0, CHR 0xB2, CHR 0xD1, CHR 0x8B, CHR 0xD1, CHR 0x81,
      CHR 0xD0, CHR 0xB8, CHR 0xD0, CHR 0xBB, CHR 0xD0, CHR 0xBE, CHR '' '', CHR 0xD0,
      CHR 0xBF, CHR 0xD0, CHR 0xBE, CHR 0xD1, CHR 0x80, CHR 0xD0, CHR 0xBE, CHR 0xD0, CHR 0xB3]"

definition message_memory :: string where
  "message_memory =
     [CHR 0xD0, CHR 0x98, CHR 0xD1, CHR 0x81, CHR 0xD0, CHR 0xBF, CHR 0xD0, CHR 0xBE, CHR 0xD0,
      CHR 0xBB, CHR 0xD1, CHR 0x8C, CHR 0xD0, CHR 0xB7, CHR 0xD0, CHR 0xBE, CHR 0xD0, CHR 0xB2,
      CHR 0xD0, CHR 0xB0, CHR 0xD0, CHR 0xBD, CHR 0xD0, CHR 0xB8, CHR 0xD0, CHR 0xB5,
      CHR '' '', CHR 0xD0, CHR 0xBF, CHR 0xD0, CHR 0xB0, CHR 0xD0, CHR 0xBC, CHR 0xD1,
      CHR 0x8F, CHR 0xD1, CHR 0x82, CHR 0xD0, CHR 0xB8, CHR '' '', CHR 0xD0, CHR 0xBF,
      CHR 0xD1, CHR 0x80, CHR 0xD0, CHR 0xB5, CHR 0xD0, CHR 0xB2, CHR 0xD1, CHR 0x8B, CHR 0xD1,
      CHR 0x81, CHR 0xD0, CHR 0xB8, CHR 0xD0, CHR 0xBB, CHR 0xD0, CHR 0xBE, CHR '' '',
      CHR 0xD0, CHR 0xBF, CHR 0xD0, CHR 0xBE, CHR 0xD1, CHR 0x80, CHR 0xD0, CHR 0xBE, CHR 0xD0,
      CHR 0xB3]"

definition message_disk :: string where
  "message_disk =
     [CHR 0xD0, CHR 0x98, CHR 0xD1, CHR 0x81, CHR 0xD0, CHR 0xBF, CHR 0xD0, CHR 0xBE, CHR 0xD0,
      CHR 0xBB, CHR 0xD1, CHR 0x8C, CHR 0xD0, CHR 0xB7, CHR 0xD0, CHR 0xBE, CHR 0xD0, CHR 0xB2,
      CHR 0xD0, CHR 0xB0, CHR 0xD0, CHR 0xBD, CHR 0xD0, CHR 0xB8, CHR 0xD0, CHR 0xB5,
      CHR '' '', CHR 0xD0, CHR 0xB4, CHR 0xD0, CHR 0xB8, CHR 0xD1, CHR 0x81, CHR 0xD0,
      CHR 0xBA, CHR 0xD0, CHR 0xB0, CHR '' '', CHR 0xD0, CHR 0xBF, CHR 0xD1, CHR 0x80,
      CHR 0xD0, CHR 0xB5, CHR 0xD0, CHR 0xB2, CHR 0xD1, CHR 0x8B, CHR 0xD1, CHR 0x81, CHR 0xD0,
      CHR 0xB8, CHR 0xD0, CHR 0xBB, CHR 0xD0, CHR 0xBE, CHR '' '', CHR 0xD0, CHR 0xBF,
      CHR 0xD0, CHR 0xBE, CHR 0xD1, CHR 0x80, CHR 0xD0, CHR 0xBE, CHR 0xD0, CHR 0xB3]"

definition message_net_sent :: string where
  "message_net_sent =
     [CHR 0xD0, CHR 0xA1, CHR 0xD0, CHR 0xBA, CHR 0xD0, CHR 0xBE, CHR 0xD1, CHR 0x80, CHR 0xD0,
      CHR 0xBE, CHR 0xD1, CHR 0x81, CHR 0xD1, CHR 0x82, CHR 0xD1, CHR 0x8C, CHR '' '',
      CHR 0xD0, CHR 0xBE, CHR 0xD1, CHR 0x82, CHR 0xD0, CHR 0xBF, CHR 0xD1, CHR 0x80, CHR 0xD0,
      CHR 0xB0, CHR 0xD0, CHR 0xB2, CHR 0xD0, CHR 0xBA, CHR 0xD0, CHR 0xB8, CHR '' '',
      CHR 0xD0, CHR 0xBF, CHR 0xD1, CHR 0x80, CHR 0xD0, CHR 0xB5, CHR 0xD0, CHR 0xB2, CHR 0xD1,
      CHR 0x8B, CHR 0xD1, CHR 0x81, CHR 0xD0, CHR 0xB8, CHR 0xD0, CHR 0xBB, CHR 0xD0, CHR 0xB0,
      CHR '' '', CHR 0xD0, CHR 0xBF, CHR 0xD0, CHR 0xBE, CHR 0xD1, CHR 0x80, CHR 0xD0,
      CHR 0xBE, CHR 0xD0, CHR 0xB3]"

definition message_net_recv :: string where
  "message_net_recv =
     [CHR 0xD0, CHR 0xA1, CHR 0xD0, CHR 0xBA, CHR 0xD0, CHR 0xBE, CHR 0xD1, CHR 0x80, CHR 0xD0,
      CHR 0xBE, CHR 0xD1, CHR 0x81, CHR 0xD1, CHR 0x82, CHR 0xD1, CHR 0x8C, CHR '' '',
      CHR 0xD0, CHR 0xBF, CHR 0xD0, CHR 0xBE, CHR 0xD0, CHR 0xBB, CHR 0xD1, CHR 0x83, CHR 0xD1,
      CHR 0x87, CHR 0xD0, CHR 0xB5, CHR 0xD0, CHR 0xBD, CHR 0xD0, CHR 0xB8, CHR 0xD1, CHR 0x8F,
      CHR '' '', CHR 0xD0, CHR 0xBF, CHR 0xD1, CHR 0x80, CHR 0xD0, CHR 0xB5, CHR 0xD0,
      CHR 0xB2, CHR 0xD1, CHR 0x8B, CHR 0xD1, CHR 0x81, CHR 0xD0, CHR 0xB8, CHR 0xD0, CHR 0xBB,
      CHR 0xD0, CHR 0xB0, CHR '' '', CHR 0xD0, CHR 0xBF, CHR 0xD0, CHR 0xBE, CHR 0xD1,
      CHR 0x80, CHR 0xD0, CHR 0xBE, CHR 0xD0, CHR 0xB3]"

subsection \<open>The four resource checks\<close>

text \<open>
  Each check takes what it reads from outside: the psutil reading, and the reading of
  \<^verbatim>\<open>datetime.now()\<close> that stamps an alert. It returns the alerts and the monitor with
  \<^verbatim>\<open>current_metrics\<close> updated. The psutil calls of \<^verbatim>\<open>check_cpu\<close>,
  \<^verbatim>\<open>check_memory\<close> and \<^verbatim>\<open>check_network\<close> are taken to return a reading.
\<close>

definition check_cpu :: "real \<Rightarrow> datetime \<Rightarrow> Monitor \<Rightarrow> Alert list \<times> Monitor" where
  "check_cpu reading now m =
     (if \<not> get_default (cpu_enabled (config m)) True then ([], m)
      else
        let thr = get_default (cpu_threshold (config m)) 80;
            m1 = m\<lparr>current_metrics := (current_metrics m)\<lparr>cpu_percent := reading\<rparr>\<rparr>
        in if reading > thr
           then ([\<lparr>level = (if reading > 90 then CRITICAL else WARNING),
                   resource = resource_cpu, message = message_cpu,
                   alert_value = reading, threshold = thr, timestamp = now\<rparr>], m1)
           else ([], m1))"

definition check_memory :: "real \<Rightarrow> datetime \<Rightarrow> Monitor \<Rightarrow> Alert list \<times> Monitor" where
  "check_memory reading now m =
     (if \<not> get_default (memory_enabled (config m)) True then ([], m)
      else
        let thr = get_default (memory_threshold (config m)) 80;
            m1 = m\<lparr>current_metrics := (current_metrics m)\<lparr>memory_percent := reading\<rparr>\<rparr>
        in if reading > thr
           then ([\<lparr>level = (if reading > 90 then CRITICAL else WARNING),
                   resource = resource_memory, message = message_memory,
                   alert_value = reading, threshold = thr, timestamp = now\<rparr>], m1)
           else ([], m1))"

text \<open>
  What \<^verbatim>\<open>psutil.disk_usage\<close> does on one mount: it returns the percentage used or
  raises. The two \<^verbatim>\<open>except\<close> clauses of \<^verbatim>\<open>check_disk\<close> tell a
  \<^verbatim>\<open>PermissionError\<close> from every other exception.
\<close>

datatype UsageError = PermissionError | OtherException

text \<open>
  One entry of \<^verbatim>\<open>psutil.disk_partitions()\<close>: the mount point, what
  \<^verbatim>\<open>disk_usage\<close> does on it, and the reading of \<^verbatim>\<open>datetime.now()\<close> for its alert.
\<close>

type_synonym Partition = "string \<times> (UsageError + real) \<times> datetime"

text \<open>
  The loop of \<^verbatim>\<open>check_disk\<close> over the partitions, with the list \<^verbatim>\<open>alerts\<close> it
  appends to. Both handlers only write to the log, so a mount whose read raises leaves
  the alerts and the monitor as they were and the loop goes on.
\<close>

fun check_partitions ::
  "real \<Rightarrow> string list \<Rightarrow> Partition list \<Rightarrow> Alert list \<Rightarrow> Monitor \<Rightarrow> Alert list \<times> Monitor" where
  "check_partitions thr paths [] alerts m = (alerts, m)"
| "check_partitions thr paths ((mountpoint, usage, now) # ps) alerts m =
     (if mountpoint \<in> set paths \<or> paths = [] then
        (case usage of
           Inl PermissionError \<Rightarrow> check_partitions thr paths ps alerts m
         | Inl OtherException \<Rightarrow> check_partitions thr paths ps alerts m
         | Inr pct \<Rightarrow>
             let m1 = (if mountpoint = ''/''
                       then m\<lparr>current_metrics := (current_metrics m)\<lparr>disk_percent := pct\<rparr>\<rparr>
                       else m);
                 alerts1 = (if pct > thr
                            then alerts @
                              [\<lparr>level = (if pct > 90 then CRITICAL else WARNING),
                                resource = resource_disk_prefix @ mountpoint,
                                message = message_disk,
                                alert_value = pct, threshold = thr, timestamp = now\<rparr>]
                            else alerts)
             in check_partitions thr paths ps alerts1 m1)
      else check_partitions thr paths ps alerts m)"

definition check_disk :: "Partition list \<Rightarrow> Monitor \<Rightarrow> Alert list \<times> Monitor" where
  "check_disk partitions m =
     (if \<not> get_default (disk_enabled (config m)) True then ([], m)
      else check_partitions (get_default (disk_threshold (config m)) 80)
             (get_default (disk_paths (config m)) [''/'']) partitions [] m)"

text \<open>
  \<^verbatim>\<open>check_network\<close>: the counters read now, the reading of \<^verbatim>\<open>time.time()\<close>, and the
  two readings of \<^verbatim>\<open>datetime.now()\<close>. The elapsed time is replaced by \<open>1\<close> only when
  it is exactly \<open>0\<close>.
\<close>

definition network_speeds :: "NetIO \<Rightarrow> real \<Rightarrow> Monitor \<Rightarrow> real \<times> real" where
  "network_speeds current_net_io current_time m =
     (let time_diff = current_time - prev_check_time m;
          time_diff = (if time_diff = 0 then 1 else time_diff);
          mb_sent = real_of_int (bytes_sent current_net_io - bytes_sent (prev_net_io m)) / (1024 * 1024);
          mb_recv = real_of_int (bytes_recv current_net_io - bytes_recv (prev_net_io m)) / (1024 * 1024)
      in (mb_sent / time_diff, mb_recv / time_diff))"

definition check_network ::
  "NetIO \<Rightarrow> real \<Rightarrow> datetime \<Rightarrow> datetime \<Rightarrow> Monitor \<Rightarrow> Alert list \<times> Monitor" where
  "check_network current_net_io current_time now_sent now_recv m =
     (if \<not> get_default (network_enabled (config m)) True then ([], m)
      else
        let threshold_sent = get_default (threshold_sent_mbps (config m)) 10;
            threshold_recv = get_default (threshold_recv_mbps (config m)) 10;
            (mb_sent_speed, mb_recv_speed) = network_speeds current_net_io current_time m;
            m1 = m\<lparr>current_metrics := (current_metrics m)
                       \<lparr>network_sent_speed := mb_sent_speed, network_recv_speed := mb_recv_speed\<rparr>,
                    prev_net_io := current_net_io, prev_check_time := current_time\<rparr>;
            alerts_sent = (if mb_sent_speed > threshold_sent
                           then [\<lparr>level = WARNING, resource = resource_net_sent,
                                   message = message_net_sent, alert_value = mb_sent_speed,
                                   threshold = threshold_sent, timestamp = now_sent\<rparr>]
                           else []);
            alerts_recv = (if mb_recv_speed > threshold_recv
                           then [\<lparr>level = WARNING, resource = resource_net_recv,
                                   message = message_net_recv, alert_value = mb_recv_speed,
                                   threshold = threshold_recv, timestamp = now_recv\<rparr>]
                           else [])
        in (alerts_sent @ alerts_recv, m1))"

subsection \<open>Notification and the tick\<close>

text \<open>
  \<^verbatim>\<open>send_telegram_message\<close>. The argument says whether the HTTP request came back with
  status 200; any other status and an exception of the request both make the method
  return \<^verbatim>\<open>False\<close>. The text of the message only goes into the request and is left
  out. A token or chat id that is absent or empty is falsy.
\<close>

definition send_telegram_message :: "bool \<Rightarrow> Monitor \<Rightarrow> bool \<times> Monitor" where
  "send_telegram_message status_200 m =
     (if \<not> get_default (telegram_enabled (config m)) False then (False, m)
      else if get_default (bot_token (config m)) [] = [] \<or> get_default (chat_id (config m)) [] = []
      then (False, m)
      else if status_200
      then (True, m\<lparr>stats := (stats m)\<lparr>notifications_sent := notifications_sent (stats m) + 1\<rparr>\<rparr>)
      else (False, m))"

text \<open>
  What one call of \<^verbatim>\<open>check_resources\<close> reads from outside: the psutil readings with
  the \<^verbatim>\<open>datetime.now()\<close> of their alerts and, for the \<open>i\<close>-th alert of the tick, the
  reading of \<^verbatim>\<open>time.time()\<close> in \<^verbatim>\<open>can_send_alert\<close> and the outcome of its request.
\<close>

record Readings =
  cpu_reading :: real
  cpu_now :: datetime
  memory_reading :: real
  memory_now :: datetime
  partitions :: "Partition list"
  net_io_counters :: NetIO
  net_time :: real
  net_now_sent :: datetime
  net_now_recv :: datetime
  gate_time :: "nat \<Rightarrow> real"
  request_ok :: "nat \<Rightarrow> bool"

text \<open>
  The body of the loop \<^verbatim>\<open>for alert in alerts\<close>: the alert is appended to the history
  and counted, the front of the history is popped when its length exceeds 100, and the
  notification is sent when the gate lets it through.
\<close>

definition record_alert :: "Alert \<Rightarrow> Monitor \<Rightarrow> Monitor" where
  "record_alert alert m =
     (let h = alert_history m @ [alert]
      in m\<lparr>alert_history := (if length h > 100 then tl h else h),
           stats := (stats m)\<lparr>alerts_triggered := alerts_triggered (stats m) + 1\<rparr>\<rparr>)"

definition handle_alert :: "real \<Rightarrow> bool \<Rightarrow> Alert \<Rightarrow> Monitor \<Rightarrow> Monitor" where
  "handle_alert current_time status_200 alert m =
     (let (ok, m1) = can_send_alert current_time (resource alert) (level alert) (record_alert alert m)
      in if ok then snd (send_telegram_message status_200 m1) else m1)"

fun handle_alerts :: "(nat \<Rightarrow> real) \<Rightarrow> (nat \<Rightarrow> bool) \<Rightarrow> nat \<Rightarrow> Alert list \<Rightarrow> Monitor \<Rightarrow> Monitor" where
  "handle_alerts clock status i [] m = m"
| "handle_alerts clock status i (alert # alerts) m =
     handle_alerts clock status (Suc i) alerts (handle_alert (clock i) (status i) alert m)"

text \<open>
  \<^verbatim>\<open>check_resources\<close>. The test of \<^verbatim>\<open>monitoring_enabled\<close> comes first and returns
  before the counter of checks is touched.
\<close>

definition check_resources :: "Readings \<Rightarrow> Monitor \<Rightarrow> Alert list \<times> Monitor" where
  "check_resources r m =
     (if \<not> monitoring_enabled m then ([], m)
      else
        let m0 = m\<lparr>stats := (stats m)\<lparr>checks := checks (stats m) + 1\<rparr>\<rparr>;
            (a1, m1) = check_cpu (cpu_reading r) (cpu_now r) m0;
            (a2, m2) = check_memory (memory_reading r) (memory_now r) m1;
            (a3, m3) = check_disk (partitions r) m2;
            (a4, m4) = check_network (net_io_counters r) (net_time r) (net_now_sent r) (net_now_recv r) m3;
            alerts = a1 @ a2 @ a3 @ a4
        in (alerts, handle_alerts (gate_time r) (request_ok r) 0 alerts m4))"

subsection \<open>The state file\<close>

text \<open>
  \<^verbatim>\<open>datetime.isoformat()\<close> of a naive datetime: \<^verbatim>\<open>YYYY-MM-DDTHH:MM:SS\<close>, followed by
  \<^verbatim>\<open>.ffffff\<close> when the microsecond is not zero.
\<close>

primrec decimal :: "nat \<Rightarrow> nat \<Rightarrow> string" where
  "decimal 0 n = []"
| "decimal (Suc k) n = decimal k (n div 10) @ [char_of (48 + n mod 10)]"

definition isoformat :: "datetime \<Rightarrow> string" where
  "isoformat d =
     decimal 4 (year d) @ ''-'' @ decimal 2 (month d) @ ''-'' @ decimal 2 (day d) @ ''T'' @
     decimal 2 (hour d) @ '':'' @ decimal 2 (minute d) @ '':'' @ decimal 2 (second d) @
     (if microsecond d = 0 then [] else ''.'' @ decimal 6 (microsecond d))"

text \<open>
  \<^verbatim>\<open>datetime.fromisoformat\<close>, on the two layouts that \<open>isoformat\<close> writes, with any
  character between the date and the time; \<open>None\<close> stands for its \<^verbatim>\<open>ValueError\<close>.
  Python also reads reduced layouts and UTC offsets; a string in one of those is
  rejected here, and no result below rests on a rejection.
\<close>

definition digit_value :: "char \<Rightarrow> nat option" where
  "digit_value c =
     (let n = (of_char c :: nat) in if 48 \<le> n \<and> n \<le> 57 then Some (n - 48) else None)"

primrec number :: "nat \<Rightarrow> string \<Rightarrow> nat option" where
  "number acc [] = Some acc"
| "number acc (c # cs) =
     (case digit_value c of None \<Rightarrow> None | Some d \<Rightarrow> number (10 * acc + d) cs)"

definition field :: "nat \<Rightarrow> nat \<Rightarrow> string \<Rightarrow> nat option" where
  "field start len s = number 0 (take len (drop start s))"

definition is_leap :: "nat \<Rightarrow> bool" where
  "is_leap y = (y mod 4 = 0 \<and> (y mod 100 \<noteq> 0 \<or> y mod 400 = 0))"

definition days_in_month :: "nat \<Rightarrow> nat \<Rightarrow> nat" where
  "days_in_month y mo =
     (if mo = 2 then (if is_leap y then 29 else 28)
      else if mo = 4 \<or> mo = 6 \<or> mo = 9 \<or> mo = 11 then 30 else 31)"

definition valid_datetime :: "datetime \<Rightarrow> bool" where
  "valid_datetime d =
     (1 \<le> year d \<and> year d \<le> 9999 \<and> 1 \<le> month d \<and> month d \<le> 12 \<and>
      1 \<le> day d \<and> day d \<le> days_in_month (year d) (month d) \<and>
      hour d < 24 \<and> minute d < 60 \<and> second d < 60 \<and> microsecond d < 1000000)"

definition fromisoformat :: "string \<Rightarrow> datetime option" where
  "fromisoformat s =
     (let n = length s in
      if n \<noteq> 19 \<and> n \<noteq> 26 then None
      else if s ! 4 \<noteq> CHR ''-'' \<or> s ! 7 \<noteq> CHR ''-'' \<or> s ! 13 \<noteq> CHR '':'' \<or> s ! 16 \<noteq> CHR '':''
      then None
      else if n = 26 \<and> s ! 19 \<noteq> CHR ''.'' then None
      else
        (case (field 0 4 s, field 5 2 s, field 8 2 s, field 11 2 s, field 14 2 s, field 17 2 s,
               field 20 6 s) of
           (Some y, Some mo, Some d, Some h, Some mi, Some sec, Some us) \<Rightarrow>
             (let t = \<lparr>year = y, month = mo, day = d, hour = h, minute = mi, second = sec,
                       microsecond = us\<rparr>
              in if valid_datetime t then Some t else None)
         | _ \<Rightarrow> None))"

text \<open>
  The JSON object that \<^verbatim>\<open>Alert.to_dict\<close> builds and \<^verbatim>\<open>load_state\<close> reads back. The
  level is written by value and read back by member name.
\<close>

record AlertData =
  data_level :: string
  data_resource :: string
  data_message :: string
  data_value :: real
  data_threshold :: real
  data_timestamp :: string

definition to_dict :: "Alert \<Rightarrow> AlertData" where
  "to_dict a =
     \<lparr>data_level = level_value (level a), data_resource = resource a,
      data_message = message a, data_value = alert_value a, data_threshold = threshold a,
      data_timestamp = isoformat (timestamp a)\<rparr>"

text \<open>The object under \<^verbatim>\<open>stats\<close> in a state file; its start time is a JSON string.\<close>

record StatsData =
  data_checks :: int
  data_alerts_triggered :: int
  data_notifications_sent :: int
  data_start_time :: string

text \<open>
  A parsed state file. Each of the three keys that \<^verbatim>\<open>load_state\<close> reads with
  \<^verbatim>\<open>state.get\<close> may be absent; a value that is present is taken to have the shape
  that \<^verbatim>\<open>save_state\<close> writes (a list of alert objects with their six keys, a stats
  object with its four, a table of numbers).
\<close>

record StateDoc =
  doc_alert_history :: "AlertData list option"
  doc_stats :: "StatsData option"
  doc_last_alert_times :: "(string \<rightharpoonup> real) option"

text \<open>
  The file \<^verbatim>\<open>monitor_state.json\<close>: it does not exist, its text is not JSON, its JSON
  value is not an object, or it is an object.
\<close>

datatype StateFile = Missing | Invalid | Not_an_object | Document StateDoc

text \<open>
  \<^verbatim>\<open>save_state\<close> returns the file it leaves behind; the file is taken to be writable.
  \<^verbatim>\<open>json.dump\<close> has no encoder for a \<^verbatim>\<open>datetime\<close>: when \<^verbatim>\<open>stats["start_time"]\<close> is one
  it raises \<^verbatim>\<open>TypeError\<close> after the file was opened for writing, the handler logs the
  error, and the file holds a truncated text that is not JSON.
\<close>

definition save_state :: "Monitor \<Rightarrow> StateFile" where
  "save_state m =
     (case start_time (stats m) of
        Datetime_object d \<Rightarrow> Invalid
      | Json_string s \<Rightarrow>
          Document
            \<lparr>doc_alert_history = Some (map to_dict (alert_history m)),
             doc_stats = Some \<lparr>data_checks = checks (stats m),
                               data_alerts_triggered = alerts_triggered (stats m),
                               data_notifications_sent = notifications_sent (stats m),
                               data_start_time = s\<rparr>,
             doc_last_alert_times = Some (last_alert_times m)\<rparr>)"

text \<open>
  The loop of \<^verbatim>\<open>load_state\<close> over the stored alerts, appending to the history. The
  flag is \<open>False\<close> when an entry raised (a level that is no member name, a timestamp
  that does not parse); the entries before it are in the history by then.
\<close>

fun load_alerts :: "AlertData list \<Rightarrow> Alert list \<Rightarrow> Alert list \<times> bool" where
  "load_alerts [] h = (h, True)"
| "load_alerts (d # ds) h =
     (case level_by_name (data_level d) of
        None \<Rightarrow> (h, False)
      | Some lvl \<Rightarrow>
          (case fromisoformat (data_timestamp d) of
             None \<Rightarrow> (h, False)
           | Some t \<Rightarrow>
               load_alerts ds
                 (h @ [\<lparr>level = lvl, resource = data_resource d, message = data_message d,
                        alert_value = data_value d, threshold = data_threshold d,
                        timestamp = t\<rparr>])))"

definition stats_of_data :: "StatsData \<Rightarrow> Stats" where
  "stats_of_data s =
     \<lparr>checks = data_checks s, alerts_triggered = data_alerts_triggered s,
      notifications_sent = data_notifications_sent s,
      start_time = Json_string (data_start_time s)\<rparr>"

text \<open>
  \<^verbatim>\<open>load_state\<close>. Every exception is caught and logged, so the monitor keeps what was
  assigned before it: nothing when the text does not parse, the emptied history when the
  value is no object, the alerts read so far when an entry raises. The stored history is
  taken over as it is, whatever its length.
\<close>

definition load_state :: "StateFile \<Rightarrow> Monitor \<Rightarrow> Monitor" where
  "load_state file m =
     (case file of
        Missing \<Rightarrow> m
      | Invalid \<Rightarrow> m
      | Not_an_object \<Rightarrow> m\<lparr>alert_history := []\<rparr>
      | Document doc \<Rightarrow>
          (let (h, ok) = load_alerts (get_default (doc_alert_history doc) []) []
           in if \<not> ok then m\<lparr>alert_history := h\<rparr>
              else m\<lparr>alert_history := h,
                     stats := (case doc_stats doc of None \<Rightarrow> stats m | Some s \<Rightarrow> stats_of_data s),
                     last_alert_times := get_default (doc_last_alert_times doc) Map.empty\<rparr>))"

text \<open>
  The attributes that the constructor \<^verbatim>\<open>__init__\<close> sets before it calls
  \<^verbatim>\<open>load_state\<close>, from the configuration, the first reading of the network counters,
  \<^verbatim>\<open>time.time()\<close> and \<^verbatim>\<open>datetime.now()\<close>.
\<close>

definition fresh_monitor :: "Config \<Rightarrow> NetIO \<Rightarrow> real \<Rightarrow> datetime \<Rightarrow> Monitor" where
  "fresh_monitor cfg io t now =
     \<lparr>config = cfg, prev_net_io = io, prev_check_time = t, alert_history = [],
      monitoring_enabled = True, last_alert_times = Map.empty,
      current_metrics = \<lparr>cpu_percent = 0, memory_percent = 0, disk_percent = 0,
                          network_sent_speed = 0, network_recv_speed = 0\<rparr>,
      stats = \<lparr>checks = 0, alerts_triggered = 0, notifications_sent = 0,
               start_time = Datetime_object now\<rparr>\<rparr>"

definition init :: "StateFile \<Rightarrow> Config \<Rightarrow> NetIO \<Rightarrow> real \<Rightarrow> datetime \<Rightarrow> Monitor" where
  "init file cfg io t now = load_state file (fresh_monitor cfg io t now)"


subsection \<open>Auxiliary definitions for the statements\<close>

text \<open>
  The alerts that one partition contributes to \<^verbatim>\<open>check_disk\<close>, read off the body of its
  loop; \<open>check_disk_alerts\<close> below proves that the loop returns their concatenation.
\<close>

definition partition_alerts :: "real \<Rightarrow> string list \<Rightarrow> Partition \<Rightarrow> Alert list" where
  "partition_alerts thr paths p =
     (case p of (mountpoint, usage, now) \<Rightarrow>
        (case usage of
           Inl e \<Rightarrow> []
         | Inr pct \<Rightarrow>
             if (mountpoint \<in> set paths \<or> paths = []) \<and> pct > thr
             then [\<lparr>level = (if pct > 90 then CRITICAL else WARNING),
                     resource = resource_disk_prefix @ mountpoint, message = message_disk,
                     alert_value = pct, threshold = thr, timestamp = now\<rparr>]
             else []))"

text \<open>
  The network rate in the words of the specification:
  \<^verbatim>\<open>(currentCumulativeBytes - previousCumulativeBytes) / max(elapsedSeconds, 1) / (1024*1024)\<close>.
  It is compared below with what \<open>check_network\<close> computes.
\<close>

definition spec_rate :: "int \<Rightarrow> int \<Rightarrow> real \<Rightarrow> real" where
  "spec_rate current previous elapsed =
     real_of_int (current - previous) / max elapsed 1 / (1024 * 1024)"

text \<open>
  One pass through the body of the loop \<^verbatim>\<open>for alert in alerts\<close> of
  \<^verbatim>\<open>check_resources\<close>: the alert, the reading of \<^verbatim>\<open>time.time()\<close> in the gate and the
  outcome of the request. \<open>handle_events\<close> runs \<open>handle_alert\<close> over a list of them,
  \<open>gate_decisions\<close> lists what \<open>can_send_alert\<close> answers for each, and \<open>tick_events\<close>
  are the events of one tick.
\<close>

record Event =
  event_time :: real
  event_status :: bool
  event_alert :: Alert

fun handle_events :: "Event list \<Rightarrow> Monitor \<Rightarrow> Monitor" where
  "handle_events [] m = m"
| "handle_events (e # es) m =
     handle_events es (handle_alert (event_time e) (event_status e) (event_alert e) m)"

fun gate_decisions :: "Event list \<Rightarrow> Monitor \<Rightarrow> bool list" where
  "gate_decisions [] m = []"
| "gate_decisions (e # es) m =
     fst (can_send_alert (event_time e) (resource (event_alert e)) (level (event_alert e))
            (record_alert (event_alert e) m)) #
     gate_decisions es (handle_alert (event_time e) (event_status e) (event_alert e) m)"

fun tick_events :: "(nat \<Rightarrow> real) \<Rightarrow> (nat \<Rightarrow> bool) \<Rightarrow> nat \<Rightarrow> Alert list \<Rightarrow> Event list" where
  "tick_events clock status i [] = []"
| "tick_events clock status i (alert # alerts) =
     \<lparr>event_time = clock i, event_status = status i, event_alert = alert\<rparr> #
     tick_events clock status (Suc i) alerts"

text \<open>The configured cooldown, as \<open>can_send_alert\<close> reads it.\<close>

definition cooldown_of :: "Monitor \<Rightarrow> real" where
  "cooldown_of m = get_default (notification_cooldown_seconds (config m)) 300"

text \<open>
  The operations that change the monitor or its state file: a tick with its readings,
  \<^verbatim>\<open>save_state\<close> and \<^verbatim>\<open>load_state\<close>. A state of the system is the monitor together
  with the file; \<open>stored_alerts\<close> counts the alerts that a file holds.
\<close>

datatype Operation = Tick Readings | Save | Load

fun step :: "Operation \<Rightarrow> Monitor \<times> StateFile \<Rightarrow> Monitor \<times> StateFile" where
  "step (Tick r) (m, sf) = (snd (check_resources r m), sf)"
| "step Save (m, sf) = (m, save_state m)"
| "step Load (m, sf) = (load_state sf m, sf)"

fun run :: "Operation list \<Rightarrow> Monitor \<times> StateFile \<Rightarrow> Monitor \<times> StateFile" where
  "run [] s = s"
| "run (operation # operations) s = run operations (step operation s)"

definition stored_alerts :: "StateFile \<Rightarrow> nat" where
  "stored_alerts sf =
     (case sf of Document doc \<Rightarrow> length (get_default (doc_alert_history doc) []) | _ \<Rightarrow> 0)"

subsection \<open>Example inputs\<close>

text \<open>
  A configuration with the defaults of \<^verbatim>\<open>create_default_config\<close> and working Telegram
  credentials, a monitor as the constructor builds it at time 1000 with both network
  counters at zero, and the readings of one tick.
\<close>

definition example_config :: Config where
  "example_config =
     \<lparr>notification_cooldown_seconds = Some 300, cpu_enabled = Some True, cpu_threshold = Some 80,
      memory_enabled = Some True, memory_threshold = Some 80, disk_enabled = Some True,
      disk_threshold = Some 80, disk_paths = Some [''/''], network_enabled = Some True,
      threshold_sent_mbps = Some 10, threshold_recv_mbps = Some 10,
      telegram_enabled = Some True, bot_token = Some ''token'', chat_id = Some ''chat''\<rparr>"

definition example_now :: datetime where
  "example_now =
     \<lparr>year = 2024, month = 1, day = 2, hour = 3, minute = 4, second = 5, microsecond = 0\<rparr>"

definition example_monitor :: Monitor where
  "example_monitor =
     fresh_monitor example_config \<lparr>bytes_sent = 0, bytes_recv = 0\<rparr> 1000 example_now"

definition example_readings :: Readings where
  "example_readings =
     \<lparr>cpu_reading = 95, cpu_now = example_now, memory_reading = 50, memory_now = example_now,
      partitions = [(''/'', Inr 85, example_now)],
      net_io_counters = \<lparr>bytes_sent = 0, bytes_recv = 0\<rparr>, net_time = 1060,
      net_now_sent = example_now, net_now_recv = example_now,
      gate_time = (\<lambda>i. 1061), request_ok = (\<lambda>i. True)\<rparr>"

text \<open>
  A warning for the CPU, and three events that carry it 200 seconds apart.
\<close>

definition example_alert :: Alert where
  "example_alert =
     \<lparr>level = WARNING, resource = resource_cpu, message = message_cpu, alert_value = 85,
      threshold = 80, timestamp = example_now\<rparr>"

definition example_events :: "Event list" where
  "example_events =
     [\<lparr>event_time = 1000, event_status = True, event_alert = example_alert\<rparr>,
      \<lparr>event_time = 1200, event_status = True, event_alert = example_alert\<rparr>,
      \<lparr>event_time = 1400, event_status = True, event_alert = example_alert\<rparr>]"

text \<open>
  A state file that holds 101 alerts, a monitor whose history holds 100, and the monitor
  after the example tick.
\<close>

definition big_file :: StateFile where
  "big_file =
     Document \<lparr>doc_alert_history = Some (replicate 101 (to_dict example_alert)),
               doc_stats = None, doc_last_alert_times = None\<rparr>"

definition full_monitor :: Monitor where
  "full_monitor = example_monitor\<lparr>alert_history := replicate 100 example_alert\<rparr>"

definition example_after_tick :: Monitor where
  "example_after_tick = snd (check_resources example_readings example_monitor)"

section \<open>Properties\<close>

subsection \<open>What the methods leave unchanged\<close>

text \<open>
  The checks write only \<^verbatim>\<open>current_metrics\<close> and the previous network reading; recording
  an alert, the gate and the notification leave the configuration alone.
\<close>

lemma record_alert_frame [simp]:
  "last_alert_times (record_alert a m) = last_alert_times m"
  "config (record_alert a m) = config m"
  by (simp_all add: record_alert_def Let_def)

lemma send_telegram_message_frame [simp]:
  "last_alert_times (snd (send_telegram_message ok m)) = last_alert_times m"
  "config (snd (send_telegram_message ok m)) = config m"
  "alert_history (snd (send_telegram_message ok m)) = alert_history m"
  by (simp_all add: send_telegram_message_def)

lemma can_send_alert_frame [simp]:
  "config (snd (can_send_alert t r l m)) = config m"
  "alert_history (snd (can_send_alert t r l m)) = alert_history m"
  by (simp_all add: can_send_alert_def Let_def)

lemma handle_alert_config [simp]: "config (handle_alert t ok a m) = config m"
  by (simp add: handle_alert_def split_beta)

lemma check_cpu_frame [simp]:
  "alert_history (snd (check_cpu x now m)) = alert_history m"
  "last_alert_times (snd (check_cpu x now m)) = last_alert_times m"
  "config (snd (check_cpu x now m)) = config m"
  "stats (snd (check_cpu x now m)) = stats m"
  by (simp_all add: check_cpu_def Let_def)

lemma check_memory_frame [simp]:
  "alert_history (snd (check_memory x now m)) = alert_history m"
  "last_alert_times (snd (check_memory x now m)) = last_alert_times m"
  "config (snd (check_memory x now m)) = config m"
  "stats (snd (check_memory x now m)) = stats m"
  by (simp_all add: check_memory_def Let_def)

lemma check_partitions_frame:
  "alert_history (snd (check_partitions thr paths ps alerts m)) = alert_history m \<and>
   last_alert_times (snd (check_partitions thr paths ps alerts m)) = last_alert_times m \<and>
   config (snd (check_partitions thr paths ps alerts m)) = config m \<and>
   stats (snd (check_partitions thr paths ps alerts m)) = stats m"
proof (induction ps arbitrary: alerts m thr paths)
  case Nil
  show ?case by simp
next
  case (Cons p ps)
  obtain mp usage now where p: "p = (mp, usage, now)" by (cases p)
  show ?case
    unfolding p by (cases usage) (simp_all add: Cons.IH Let_def split: UsageError.split)
qed

lemma check_disk_frame [simp]:
  "alert_history (snd (check_disk ps m)) = alert_history m"
  "last_alert_times (snd (check_disk ps m)) = last_alert_times m"
  "config (snd (check_disk ps m)) = config m"
  "stats (snd (check_disk ps m)) = stats m"
  by (simp_all add: check_disk_def check_partitions_frame)

lemma check_network_frame [simp]:
  "alert_history (snd (check_network io t n1 n2 m)) = alert_history m"
  "last_alert_times (snd (check_network io t n1 n2 m)) = last_alert_times m"
  "config (snd (check_network io t n1 n2 m)) = config m"
  "stats (snd (check_network io t n1 n2 m)) = stats m"
  by (simp_all add: check_network_def Let_def split_beta)

subsection \<open>The loop over the partitions\<close>

lemma check_partitions_append:
  "check_partitions thr paths (ps1 @ ps2) alerts m =
     (case check_partitions thr paths ps1 alerts m of (a1, m1) \<Rightarrow> check_partitions thr paths ps2 a1 m1)"
proof (induction ps1 arbitrary: alerts m thr paths)
  case Nil
  show ?case by simp
next
  case (Cons p ps1)
  obtain mp usage now where p: "p = (mp, usage, now)" by (cases p)
  show ?case
    unfolding p
    by (simp add: Cons.IH Let_def split: sum.split UsageError.split)
qed

lemma check_partitions_alerts:
  "fst (check_partitions thr paths ps alerts m) = alerts @ concat (map (partition_alerts thr paths) ps)"
proof (induction ps arbitrary: alerts m thr paths)
  case Nil
  show ?case by simp
next
  case (Cons p ps)
  obtain mp usage now where p: "p = (mp, usage, now)" by (cases p)
  show ?case
    unfolding p
    by (cases usage) (auto simp add: Cons.IH partition_alerts_def Let_def split: UsageError.split)
qed

lemma check_disk_alerts:
  "fst (check_disk ps m) =
     (if \<not> get_default (disk_enabled (config m)) True then []
      else concat (map (partition_alerts (get_default (disk_threshold (config m)) 80)
                          (get_default (disk_paths (config m)) [''/''])) ps))"
  by (simp add: check_disk_def check_partitions_alerts)

lemma partition_alerts_level:
  "list_all (\<lambda>a. level a = (if alert_value a > 90 then CRITICAL else WARNING))
     (concat (map (partition_alerts thr paths) ps))"
  by (induction ps) (auto simp add: partition_alerts_def split: sum.split)

lemma resource_net_distinct: "resource_net_sent \<noteq> resource_net_recv"
  by (simp add: resource_net_sent_def resource_net_recv_def)

subsection \<open>The cooldown along a run of alerts (claim C1)\<close>

text \<open>
  What the loop body leaves alone, and how the entry of a key moves: once set, it is
  never replaced by an earlier time as long as the cooldown is not negative.
\<close>

lemma handle_alert_table:
  "last_alert_times (handle_alert t ok a m) =
     last_alert_times (snd (can_send_alert t (resource a) (level a) (record_alert a m)))"
  by (simp add: handle_alert_def split_beta)

lemma handle_alert_sets_entry:
  assumes "fst (can_send_alert t (resource a) (level a) (record_alert a m))"
  shows "last_alert_times (handle_alert t ok a m) (cooldown_key (resource a) (level a)) = Some t"
  using assms by (simp add: handle_alert_table) (simp add: can_send_alert_def Let_def split: if_splits)

lemma handle_alert_entry_mono:
  assumes "0 \<le> cooldown_of m" and "last_alert_times m k = Some t0"
  shows "\<exists>t1. last_alert_times (handle_alert t ok a m) k = Some t1 \<and> t0 \<le> t1"
  using assms
  by (auto simp add: handle_alert_table can_send_alert_def cooldown_of_def get_default_def Let_def)

lemma handle_events_config [simp]: "config (handle_events es m) = config m"
  by (induction es arbitrary: m) simp_all

lemma handle_events_entry_mono:
  assumes "0 \<le> cooldown_of m" and "last_alert_times m k = Some t0"
  shows "\<exists>t1. last_alert_times (handle_events es m) k = Some t1 \<and> t0 \<le> t1"
  using assms
proof (induction es arbitrary: m t0)
  case Nil
  then show ?case by simp
next
  case (Cons e es)
  let ?m = "handle_alert (event_time e) (event_status e) (event_alert e) m"
  from handle_alert_entry_mono [OF Cons.prems]
  obtain t1 where t1: "last_alert_times ?m k = Some t1" "t0 \<le> t1"
    by blast
  have "0 \<le> cooldown_of ?m"
    using Cons.prems(1) by (simp add: cooldown_of_def)
  from Cons.IH [OF this t1(1)] t1(2) show ?case
    by auto
qed

lemma handle_events_append: "handle_events (es1 @ es2) m = handle_events es2 (handle_events es1 m)"
  by (induction es1 arbitrary: m) simp_all

lemma gate_decisions_length [simp]: "length (gate_decisions es m) = length es"
  by (induction es arbitrary: m) simp_all

lemma gate_decisions_nth:
  "i < length es \<Longrightarrow>
   gate_decisions es m ! i =
     fst (can_send_alert (event_time (es ! i)) (resource (event_alert (es ! i)))
            (level (event_alert (es ! i)))
            (record_alert (event_alert (es ! i)) (handle_events (take i es) m)))"
proof (induction es arbitrary: i m)
  case Nil
  then show ?case by simp
next
  case (Cons e es)
  then show ?case by (cases i) simp_all
qed

lemma handle_alerts_events:
  "handle_alerts clock status i alerts m = handle_events (tick_events clock status i alerts) m"
  by (induction alerts arbitrary: i m) simp_all

text \<open>
  A tick of an enabled monitor is such a run: after the four checks, which leave the
  cooldown table and the configuration as they were, it handles the events of its alerts.
\<close>

lemma check_resources_events:
  assumes "monitoring_enabled m"
  shows "\<exists>m4. last_alert_times m4 = last_alert_times m \<and> config m4 = config m \<and>
           snd (check_resources r m) =
             handle_events (tick_events (gate_time r) (request_ok r) 0 (fst (check_resources r m))) m4"
proof -
  define m0 where "m0 = m\<lparr>stats := (stats m)\<lparr>checks := checks (stats m) + 1\<rparr>\<rparr>"
  define m4 where "m4 =
    snd (check_network (net_io_counters r) (net_time r) (net_now_sent r) (net_now_recv r)
      (snd (check_disk (partitions r)
        (snd (check_memory (memory_reading r) (memory_now r)
          (snd (check_cpu (cpu_reading r) (cpu_now r) m0)))))))"
  have "last_alert_times m4 = last_alert_times m" and "config m4 = config m"
    by (simp_all add: m4_def m0_def)
  moreover have "snd (check_resources r m) =
      handle_events (tick_events (gate_time r) (request_ok r) 0 (fst (check_resources r m))) m4"
    using assms
    by (simp add: check_resources_def Let_def split_beta handle_alerts_events m4_def m0_def)
  ultimately show ?thesis by blast
qed

lemma suppressed_when_entry_recent:
  assumes "last_alert_times m (cooldown_key r l) = Some t1" and "t0 \<le> t1"
    and "t - t0 < cooldown_of m"
  shows "\<not> fst (can_send_alert t r l m)"
  using assms by (simp add: can_send_alert_def cooldown_of_def get_default_def Let_def)

lemma example_decisions: "gate_decisions example_events example_monitor = [True, False, True]"
  by (simp add: example_events_def example_alert_def example_monitor_def example_config_def
      fresh_monitor_def handle_alert_def record_alert_def can_send_alert_def
      send_telegram_message_def cooldown_key_def resource_cpu_def get_default_def Let_def)

text \<open>
  Claim C1 says that of two alerts for the same resource and level that are handled less
  than the cooldown apart, the second is never notified. The gate measures the cooldown
  from the last notification, not from the last alert: with a cooldown of 300, alerts at
  the times 1000, 1200 and 1400 are notified, suppressed and notified, so the third is
  notified although it comes 200 seconds after the second.
\<close>

theorem cooldown_second_sent_counterexample:
  "resource (event_alert (example_events ! 1)) = resource (event_alert (example_events ! 2)) \<and>
   level (event_alert (example_events ! 1)) = level (event_alert (example_events ! 2)) \<and>
   \<bar>event_time (example_events ! 2) - event_time (example_events ! 1)\<bar> < cooldown_of example_monitor \<and>
   gate_decisions example_events example_monitor ! 2"
  by (simp add: example_decisions)
    (simp add: example_events_def cooldown_of_def example_monitor_def example_config_def
      fresh_monitor_def get_default_def)

text \<open>
  Claim C1, amended: of two alerts for the same resource and level that are handled less
  than the cooldown apart, never both pass the gate: when \<open>can_send_alert\<close> returned
  true for the first, it returns false for the second, whatever alerts are handled in
  between and whether or not their requests succeed.
\<close>

theorem cooldown_never_both_sent:
  assumes "i < j" and "j < length es"
    and "resource (event_alert (es ! i)) = resource (event_alert (es ! j))"
    and "level (event_alert (es ! i)) = level (event_alert (es ! j))"
    and "\<bar>event_time (es ! j) - event_time (es ! i)\<bar> < cooldown_of m"
    and "gate_decisions es m ! i"
  shows "\<not> gate_decisions es m ! j"
proof -
  define ti ai where "ti = event_time (es ! i)" and "ai = event_alert (es ! i)"
  define tj aj where "tj = event_time (es ! j)" and "aj = event_alert (es ! j)"
  define k where "k = cooldown_key (resource ai) (level ai)"
  have kj: "cooldown_key (resource aj) (level aj) = k"
    using assms(3,4) by (simp add: k_def ai_def aj_def)
  have cd: "0 \<le> cooldown_of m" and near: "tj - ti < cooldown_of m"
    using assms(5) by (simp_all add: ti_def tj_def)
  define mi where "mi = handle_events (take i es) m"
  define mi' where "mi' = handle_alert ti (event_status (es ! i)) ai mi"
  have "i < length es" using assms(1,2) by simp
  with assms(6) have "fst (can_send_alert ti (resource ai) (level ai) (record_alert ai mi))"
    by (simp add: gate_decisions_nth ti_def ai_def mi_def)
  then have entry: "last_alert_times mi' k = Some ti"
    unfolding mi'_def k_def by (rule handle_alert_sets_entry)
  have "take j es = take i (take j es) @ (take j es) ! i # drop (Suc i) (take j es)"
    using assms(1,2) by (intro id_take_nth_drop) simp
  then have split: "take j es = take i es @ (es ! i) # drop (Suc i) (take j es)"
    using assms(1) by (simp add: min_def)
  have mj: "handle_events (take j es) m = handle_events (drop (Suc i) (take j es)) mi'"
    by (subst split) (simp add: handle_events_append ti_def ai_def mi_def mi'_def)
  have cd': "0 \<le> cooldown_of mi'"
    using cd by (simp add: cooldown_of_def mi'_def mi_def)
  from handle_events_entry_mono [OF cd' entry, of "drop (Suc i) (take j es)"]
  obtain t1 where t1: "last_alert_times (handle_events (take j es) m) k = Some t1" "ti \<le> t1"
    by (auto simp add: mj)
  have "cooldown_of (record_alert aj (handle_events (take j es) m)) = cooldown_of m"
    by (simp add: cooldown_of_def)
  with near t1 have "\<not> fst (can_send_alert tj (resource aj) (level aj)
      (record_alert aj (handle_events (take j es) m)))"
    by (intro suppressed_when_entry_recent [where ?t0.0 = ti and ?t1.0 = t1]) (simp_all add: kj)
  then show ?thesis
    using assms(2) by (simp add: gate_decisions_nth tj_def aj_def)
qed

theorem cooldown_never_both_sent_witness:
  "\<bar>event_time (example_events ! 1) - event_time (example_events ! 0)\<bar> < cooldown_of example_monitor \<and>
   gate_decisions example_events example_monitor ! 0 \<and>
   \<not> gate_decisions example_events example_monitor ! 1"
  using cooldown_never_both_sent [of 0 1 example_events example_monitor]
  by (simp add: example_decisions)
    (simp add: example_events_def cooldown_of_def example_monitor_def example_config_def
      fresh_monitor_def get_default_def)

subsection \<open>The bound on the history (claim C2)\<close>

text \<open>
  Only the loop over the alerts and \<open>load_state\<close> write the history: the loop keeps a
  bounded history bounded, and a load leaves at most as many alerts as the file holds.
\<close>

lemma record_alert_length:
  "length (alert_history m) \<le> 100 \<Longrightarrow> length (alert_history (record_alert a m)) \<le> 100"
  by (simp add: record_alert_def Let_def)

lemma handle_alert_history:
  "alert_history (handle_alert t ok a m) = alert_history (record_alert a m)"
  by (simp add: handle_alert_def split_beta)

lemma handle_alerts_length:
  "length (alert_history m) \<le> 100 \<Longrightarrow>
   length (alert_history (handle_alerts clock status i alerts m)) \<le> 100"
  by (induction alerts arbitrary: i m) (simp_all add: handle_alert_history record_alert_length)

lemma check_resources_length:
  "length (alert_history m) \<le> 100 \<Longrightarrow> length (alert_history (snd (check_resources r m))) \<le> 100"
  by (simp add: check_resources_def Let_def split_beta handle_alerts_length)

lemma load_alerts_length:
  "length (fst (load_alerts ds h)) \<le> length h + length ds"
proof (induction ds arbitrary: h)
  case Nil
  show ?case by simp
next
  case (Cons d ds)
  show ?case
  proof (cases "level_by_name (data_level d)")
    case None
    then show ?thesis by simp
  next
    case (Some l)
    show ?thesis
    proof (cases "fromisoformat (data_timestamp d)")
      case None
      with Some show ?thesis by simp
    next
      case ts: (Some t)
      from Some ts Cons.IH [of "h @ [\<lparr>level = l, resource = data_resource d,
          message = data_message d, alert_value = data_value d, threshold = data_threshold d,
          timestamp = t\<rparr>]"]
      show ?thesis by simp
    qed
  qed
qed

lemma load_state_length:
  "length (alert_history (load_state sf m)) \<le> max (length (alert_history m)) (stored_alerts sf)"
proof (cases sf)
  case (Document doc)
  have "length (fst (load_alerts (get_default (doc_alert_history doc) []) [])) \<le>
      length (get_default (doc_alert_history doc) [])"
    using load_alerts_length [of "get_default (doc_alert_history doc) []" "[]"] by simp
  then show ?thesis
    by (auto simp add: Document load_state_def stored_alerts_def split_beta)
qed (simp_all add: load_state_def stored_alerts_def)

lemma save_state_stored: "stored_alerts (save_state m) \<le> length (alert_history m)"
  by (simp add: save_state_def stored_alerts_def get_default_def split: StartTime.split)

lemma step_bounded:
  assumes "length (alert_history (fst s)) \<le> 100" and "stored_alerts (snd s) \<le> 100"
  shows "length (alert_history (fst (step operation s))) \<le> 100 \<and>
         stored_alerts (snd (step operation s)) \<le> 100"
proof (cases s)
  case (Pair m sf)
  show ?thesis
  proof (cases operation)
    case (Tick r)
    then show ?thesis using assms by (simp add: Pair check_resources_length)
  next
    case Save
    then show ?thesis using assms save_state_stored [of m] by (simp add: Pair)
  next
    case Load
    then show ?thesis using assms load_state_length [of sf m] by (simp add: Pair)
  qed
qed

lemma run_bounded:
  assumes "length (alert_history (fst s)) \<le> 100" and "stored_alerts (snd s) \<le> 100"
  shows "length (alert_history (fst (run operations s))) \<le> 100"
  using assms
proof (induction operations arbitrary: s)
  case Nil
  then show ?case by simp
next
  case (Cons operation operations)
  from step_bounded [OF Cons.prems] show ?case
    by (simp add: Cons.IH)
qed

lemma load_alerts_replicate:
  assumes "level_by_name (data_level d) = Some l" and "fromisoformat (data_timestamp d) = Some t"
  shows "length (fst (load_alerts (replicate n d) h)) = length h + n"
  using assms by (induction n arbitrary: h) simp_all

lemma load_state_replicate:
  assumes "level_by_name (data_level d) = Some l" and "fromisoformat (data_timestamp d) = Some t"
  shows "length (alert_history (load_state
           (Document \<lparr>doc_alert_history = Some (replicate n d), doc_stats = st,
                       doc_last_alert_times = lt\<rparr>) m)) = n"
  using load_alerts_replicate [OF assms, of n "[]"]
  by (simp add: load_state_def get_default_def split_beta)

lemma decimal_numeral:
  "decimal (numeral k) n = decimal (pred_numeral k) (n div 10) @ [char_of (48 + n mod 10)]"
  by (simp only: numeral_eq_Suc [of k] decimal.simps)

lemma example_iso: "isoformat example_now = ''2024-01-02T03:04:05''"
  by (simp add: isoformat_def example_now_def decimal_numeral char_of_eq_iff)

lemma example_timestamp: "fromisoformat (isoformat example_now) = Some example_now"
  unfolding example_iso
  by (simp add: fromisoformat_def example_now_def field_def digit_value_def
      valid_datetime_def days_in_month_def is_leap_def)

text \<open>
  Claim C2 says that the history holds at most 100 alerts after any sequence of ticks and
  state loads. \<open>load_state\<close> takes the stored history over as it is: from a state file
  that holds 101 alerts the history has 101 entries.
\<close>

theorem history_load_counterexample:
  "length (alert_history (fst (run [Load] (example_monitor, big_file)))) = 101"
proof -
  have d: "level_by_name (data_level (to_dict example_alert)) = Some WARNING"
    by (simp add: to_dict_def example_alert_def level_by_name_def)
  have ts: "fromisoformat (data_timestamp (to_dict example_alert)) = Some example_now"
    by (simp add: to_dict_def example_alert_def example_timestamp)
  have "length (alert_history (load_state big_file example_monitor)) = 101"
    unfolding big_file_def by (rule load_state_replicate [OF d ts])
  then show ?thesis by simp
qed

text \<open>
  Claim C2, amended: after any sequence of ticks, saves and loads that starts from a
  history of at most 100 alerts and a state file that holds at most 100 alerts, the
  history holds at most 100 alerts; an append to a history of fewer than 100 alerts
  evicts nothing, and an append to a history of 100 alerts evicts the oldest entry, the
  front of the list.
\<close>

theorem history_bounded:
  "(length (alert_history m) \<le> 100 \<and> stored_alerts sf \<le> 100 \<longrightarrow>
      length (alert_history (fst (run operations (m, sf)))) \<le> 100) \<and>
   (length (alert_history m) < 100 \<longrightarrow>
      alert_history (record_alert a m) = alert_history m @ [a]) \<and>
   (length (alert_history m) = 100 \<longrightarrow>
      alert_history (record_alert a m) = tl (alert_history m) @ [a])"
proof -
  have "length (alert_history (fst (run operations (m, sf)))) \<le> 100"
    if "length (alert_history m) \<le> 100" "stored_alerts sf \<le> 100"
    using run_bounded [of "(m, sf)" operations] that by simp
  moreover have "alert_history (record_alert a m) = alert_history m @ [a]"
    if "length (alert_history m) < 100"
    using that by (simp add: record_alert_def Let_def)
  moreover have "alert_history (record_alert a m) = tl (alert_history m) @ [a]"
    if "length (alert_history m) = 100"
    using that by (cases "alert_history m") (simp_all add: record_alert_def Let_def)
  ultimately show ?thesis by blast
qed

theorem history_bounded_witness:
  "length (alert_history example_monitor) \<le> 100 \<and> stored_alerts Missing \<le> 100 \<and>
   length (alert_history (fst (run [Tick example_readings, Save, Load] (example_monitor, Missing)))) \<le> 100 \<and>
   length (alert_history example_monitor) < 100 \<and>
   alert_history (record_alert example_alert example_monitor) =
     alert_history example_monitor @ [example_alert] \<and>
   length (alert_history full_monitor) = 100 \<and>
   alert_history (record_alert example_alert full_monitor) =
     tl (alert_history full_monitor) @ [example_alert]"
proof -
  have a: "length (alert_history example_monitor) = 0"
    by (simp add: example_monitor_def fresh_monitor_def)
  have b: "length (alert_history full_monitor) = 100"
    by (simp add: full_monitor_def)
  have c: "stored_alerts Missing = 0"
    by (simp add: stored_alerts_def)
  from history_bounded [of example_monitor Missing "[Tick example_readings, Save, Load]" example_alert]
    history_bounded [of full_monitor Missing "[]" example_alert]
  show ?thesis
    unfolding a b c by simp
qed

subsection \<open>Saving and loading the state (claim C3)\<close>

lemma handle_alert_stats:
  "checks (stats (handle_alert t ok a m)) = checks (stats m) \<and>
   start_time (stats (handle_alert t ok a m)) = start_time (stats m)"
  by (simp add: handle_alert_def record_alert_def can_send_alert_def send_telegram_message_def
      Let_def split_beta)

lemma handle_alerts_stats:
  "checks (stats (handle_alerts clock status i alerts m)) = checks (stats m) \<and>
   start_time (stats (handle_alerts clock status i alerts m)) = start_time (stats m)"
  by (induction alerts arbitrary: i m) (simp_all add: handle_alert_stats)

lemma check_resources_stats:
  "checks (stats (snd (check_resources r m))) =
     (if monitoring_enabled m then checks (stats m) + 1 else checks (stats m)) \<and>
   start_time (stats (snd (check_resources r m))) = start_time (stats m)"
  by (simp add: check_resources_def Let_def split_beta handle_alerts_stats)

lemma save_state_datetime:
  "start_time (stats m) = Datetime_object d \<Longrightarrow> save_state m = Invalid"
  by (simp add: save_state_def)

lemma example_tick:
  "alert_history (example_after_tick) =
     [\<lparr>level = CRITICAL, resource = resource_cpu, message = message_cpu, alert_value = 95,
       threshold = 80, timestamp = example_now\<rparr>,
      \<lparr>level = WARNING, resource = resource_disk_prefix @ ''/'', message = message_disk,
       alert_value = 85, threshold = 80, timestamp = example_now\<rparr>] \<and>
   alerts_triggered (stats (example_after_tick)) = 2 \<and>
   notifications_sent (stats (example_after_tick)) = 2 \<and>
   last_alert_times (example_after_tick)
     (cooldown_key resource_cpu CRITICAL) = Some 1061"
  by (simp add: example_after_tick_def check_resources_def check_cpu_def check_memory_def check_disk_def check_network_def
      network_speeds_def handle_alert_def record_alert_def can_send_alert_def
      send_telegram_message_def example_readings_def example_monitor_def example_config_def
      fresh_monitor_def get_default_def cooldown_key_def resource_cpu_def resource_disk_prefix_def
      Let_def)

text \<open>
  Claim C3 says that \<open>load_state\<close> after \<open>save_state\<close> gives back the history, the
  counters and the cooldown table. For the monitor that the constructor builds this
  fails: its \<^verbatim>\<open>stats["start_time"]\<close> is a \<^verbatim>\<open>datetime\<close> object, \<^verbatim>\<open>json.dump\<close> raises on
  it and the file is left without a JSON document. After one tick that counted a check,
  recorded two alerts and set a cooldown entry, the saved file is invalid, and a monitor
  started on it has no check counted, an empty history and no cooldown entry.
\<close>

theorem save_load_loses_state:
  "checks (stats example_after_tick) = 1 \<and>
   alerts_triggered (stats example_after_tick) = 2 \<and>
   length (alert_history example_after_tick) = 2 \<and>
   last_alert_times example_after_tick (cooldown_key resource_cpu CRITICAL) = Some 1061 \<and>
   save_state example_after_tick = Invalid \<and>
   checks (stats (init (save_state example_after_tick) example_config
                    \<lparr>bytes_sent = 0, bytes_recv = 0\<rparr> 2000 example_now)) = 0 \<and>
   alerts_triggered (stats (init (save_state example_after_tick) example_config
                    \<lparr>bytes_sent = 0, bytes_recv = 0\<rparr> 2000 example_now)) = 0 \<and>
   alert_history (init (save_state example_after_tick) example_config
                    \<lparr>bytes_sent = 0, bytes_recv = 0\<rparr> 2000 example_now) = [] \<and>
   last_alert_times (init (save_state example_after_tick) example_config
                    \<lparr>bytes_sent = 0, bytes_recv = 0\<rparr> 2000 example_now)
     (cooldown_key resource_cpu CRITICAL) = None"
proof -
  have en: "monitoring_enabled example_monitor" and ch: "checks (stats example_monitor) = 0"
    and st: "start_time (stats example_monitor) = Datetime_object example_now"
    by (simp_all add: example_monitor_def fresh_monitor_def)
  have one: "checks (stats example_after_tick) = 1"
    using check_resources_stats [of example_readings example_monitor] en ch
    by (simp add: example_after_tick_def)
  have "start_time (stats example_after_tick) = Datetime_object example_now"
    using check_resources_stats [of example_readings example_monitor] st
    by (simp add: example_after_tick_def)
  then have inv: "save_state example_after_tick = Invalid"
    by (rule save_state_datetime)
  show ?thesis
    using example_tick by (simp add: one inv init_def load_state_def fresh_monitor_def)
qed

text \<open>
  The defect is confined to the start time: for a monitor whose start time is a string,
  as after a successful load, and whose alerts carry valid timestamps, saving and loading
  gives back the history, the counters and the cooldown table exactly.
\<close>

lemma length_decimal [simp]: "length (decimal k n) = k"
  by (induction k arbitrary: n) simp_all

lemma digit_value_char_of: "d < 10 \<Longrightarrow> digit_value (char_of (48 + d)) = Some d"
  by (simp add: digit_value_def)

lemma number_append:
  "number acc (xs @ ys) = (case number acc xs of None \<Rightarrow> None | Some v \<Rightarrow> number v ys)"
  by (induction xs arbitrary: acc) (simp_all split: option.split)

lemma number_decimal: "number acc (decimal k n) = Some (acc * 10 ^ k + n mod 10 ^ k)"
proof (induction k arbitrary: n acc)
  case 0
  show ?case by simp
next
  case (Suc k)
  have "n mod (10 * 10 ^ k) = 10 * (n div 10 mod 10 ^ k) + n mod 10"
    by (rule mod_mult2_eq)
  then show ?case
    by (simp add: number_append Suc.IH digit_value_char_of algebra_simps)
qed

lemma field_decimal:
  "n < 10 ^ k \<Longrightarrow> number 0 (decimal k n) = Some n"
  by (simp add: number_decimal)

lemma fromisoformat_isoformat:
  assumes "valid_datetime d"
  shows "fromisoformat (isoformat d) = Some d"
proof (cases d)
  case (fields y mo dd h mi s us)
  from assms have b: "y < 10 ^ 4" "mo < 10 ^ 2" "dd < 10 ^ 2" "h < 10 ^ 2"
    "mi < 10 ^ 2" "s < 10 ^ 2" "us < 10 ^ 6"
    by (auto simp add: fields valid_datetime_def days_in_month_def split: if_splits)
  have v: "valid_datetime \<lparr>year = y, month = mo, day = dd, hour = h, minute = mi, second = s,
      microsecond = us\<rparr>"
    using assms by (simp add: fields)
  show ?thesis
  proof (cases "us = 0")
    case True
    with v b show ?thesis
      by (simp add: fields fromisoformat_def isoformat_def field_def field_decimal nth_append)
  next
    case False
    with v b show ?thesis
      by (simp add: fields fromisoformat_def isoformat_def field_def field_decimal nth_append)
  qed
qed

lemma level_by_name_value: "level_by_name (level_value l) = Some l"
  by (cases l) (simp_all add: level_by_name_def)

lemma load_alerts_to_dict:
  assumes "list_all (\<lambda>a. valid_datetime (timestamp a)) as"
  shows "load_alerts (map to_dict as) h = (h @ as, True)"
  using assms
proof (induction as arbitrary: h)
  case Nil
  show ?case by simp
next
  case (Cons a as)
  have "\<lparr>level = level a, resource = resource a, message = message a,
      alert_value = alert_value a, threshold = threshold a, timestamp = timestamp a\<rparr> = a"
    by simp
  with Cons show ?case
    by (simp add: to_dict_def fromisoformat_isoformat level_by_name_value)
qed

lemma save_load_roundtrip_serializable:
  assumes "start_time (stats m) = Json_string s"
    and "list_all (\<lambda>a. valid_datetime (timestamp a)) (alert_history m)"
  shows "alert_history (load_state (save_state m) m') = alert_history m \<and>
         stats (load_state (save_state m) m') = stats m \<and>
         last_alert_times (load_state (save_state m) m') = last_alert_times m"
  using assms
  by (simp add: save_state_def load_state_def load_alerts_to_dict get_default_def stats_of_data_def)

subsection \<open>The cooldown gate (claim C4)\<close>

text \<open>
  Claim C4 says that the gate treats a missing table entry as infinitely elapsed, so that
  the first alert of a key always passes. The source reads a missing entry as the time
  \<open>0\<close>: with no entry for the key, a clock reading of 100 and a cooldown of 300 the gate
  answers \<^verbatim>\<open>False\<close>.
\<close>

theorem gate_missing_entry_counterexample:
  "last_alert_times example_monitor (cooldown_key resource_cpu WARNING) = None \<and>
   \<not> fst (can_send_alert 100 resource_cpu WARNING example_monitor)"
  by (simp add: can_send_alert_def example_monitor_def example_config_def fresh_monitor_def get_default_def)

text \<open>
  Claim C4, amended: \<open>can_send_alert\<close> returns true if and only if the clock reading minus
  the stored time of the key is at least the cooldown, where a missing entry counts as
  the time \<open>0\<close> (so it passes exactly when the clock reading itself is at least the
  cooldown); exactly when it returns true it sets the entry of the key to the clock
  reading, and otherwise it leaves the monitor as it was.
\<close>

theorem gate_exact:
  "fst (can_send_alert now res lvl m) =
     (get_default (notification_cooldown_seconds (config m)) 300
        \<le> now - get_default (last_alert_times m (cooldown_key res lvl)) 0) \<and>
   (last_alert_times m (cooldown_key res lvl) = None \<longrightarrow>
      fst (can_send_alert now res lvl m) =
        (get_default (notification_cooldown_seconds (config m)) 300 \<le> now)) \<and>
   snd (can_send_alert now res lvl m) =
     (if fst (can_send_alert now res lvl m)
      then m\<lparr>last_alert_times := (last_alert_times m)(cooldown_key res lvl \<mapsto> now)\<rparr>
      else m)"
  by (simp add: can_send_alert_def get_default_def Let_def not_less)

theorem gate_exact_witness:
  "last_alert_times example_monitor (cooldown_key resource_cpu WARNING) = None \<and>
   fst (can_send_alert 1000 resource_cpu WARNING example_monitor) \<and>
   last_alert_times (snd (can_send_alert 1000 resource_cpu WARNING example_monitor))
     (cooldown_key resource_cpu WARNING) = Some 1000"
  using gate_exact [of 1000 resource_cpu WARNING example_monitor]
  by (simp add: example_monitor_def example_config_def fresh_monitor_def get_default_def)

subsection \<open>A tick while monitoring is disabled (claim C5)\<close>

text \<open>
  Claim C5 says that a tick of a disabled monitor still increments the counter of checks.
  In the source the test of \<^verbatim>\<open>monitoring_enabled\<close> returns before the counter is
  incremented: with a CPU reading of 95 against a threshold of 80, the counter of the
  disabled example monitor is not incremented.
\<close>

theorem disabled_tick_counterexample:
  "\<not> monitoring_enabled (example_monitor\<lparr>monitoring_enabled := False\<rparr>) \<and>
   get_default (cpu_threshold (config example_monitor)) 80 < cpu_reading example_readings \<and>
   checks (stats (snd (check_resources example_readings (example_monitor\<lparr>monitoring_enabled := False\<rparr>))))
     \<noteq> checks (stats (example_monitor\<lparr>monitoring_enabled := False\<rparr>)) + 1"
  by (simp add: check_resources_def example_monitor_def example_config_def fresh_monitor_def
      example_readings_def get_default_def)

text \<open>
  Claim C5, amended: when monitoring is disabled a tick returns no alert and leaves the
  whole monitor unchanged; neither the counter of checks nor the counter of triggered
  alerts moves, whatever the readings are.
\<close>

theorem disabled_tick_changes_nothing:
  "\<not> monitoring_enabled m \<Longrightarrow> check_resources r m = ([], m)"
  by (simp add: check_resources_def)

theorem disabled_tick_changes_nothing_witness:
  "\<not> monitoring_enabled (example_monitor\<lparr>monitoring_enabled := False\<rparr>) \<and>
   check_resources example_readings (example_monitor\<lparr>monitoring_enabled := False\<rparr>) =
     ([], example_monitor\<lparr>monitoring_enabled := False\<rparr>)"
  using disabled_tick_changes_nothing [of "example_monitor\<lparr>monitoring_enabled := False\<rparr>" example_readings]
  by simp

subsection \<open>The network rate (claim C6)\<close>

text \<open>
  Claim C6 says that the rate is the byte difference divided by \<open>max elapsed 1\<close>, so that
  the divisor is never below one second. The source replaces the elapsed time only when
  it is exactly zero: one mebibyte sent in half a second is recorded as 2 MB/s, where the
  formula of the claim gives 1 MB/s.
\<close>

theorem network_rate_counterexample:
  "network_sent_speed (current_metrics (snd (check_network \<lparr>bytes_sent = 1048576, bytes_recv = 0\<rparr>
       (1000 + 1 / 2) example_now example_now example_monitor))) = 2 \<and>
   spec_rate 1048576 (bytes_sent (prev_net_io example_monitor))
       (1000 + 1 / 2 - prev_check_time example_monitor) = 1"
  by (simp add: check_network_def network_speeds_def example_monitor_def example_config_def
      fresh_monitor_def get_default_def spec_rate_def Let_def)

text \<open>
  Claim C6, amended: the send and receive rates that \<open>check_network\<close> records are the
  byte differences divided by the elapsed time and by \<open>1024 * 1024\<close>, where an elapsed
  time of exactly zero is replaced by one second; so the divisor is never zero, and the
  rates are those of the specification's formula whenever the elapsed time is zero or at
  least one second.
\<close>

theorem network_rate_divisor:
  assumes "get_default (network_enabled (config m)) True"
  shows "network_sent_speed (current_metrics (snd (check_network io t n1 n2 m))) =
           real_of_int (bytes_sent io - bytes_sent (prev_net_io m))
             / (if t - prev_check_time m = 0 then 1 else t - prev_check_time m) / (1024 * 1024) \<and>
         network_recv_speed (current_metrics (snd (check_network io t n1 n2 m))) =
           real_of_int (bytes_recv io - bytes_recv (prev_net_io m))
             / (if t - prev_check_time m = 0 then 1 else t - prev_check_time m) / (1024 * 1024) \<and>
         (if t - prev_check_time m = 0 then 1 else t - prev_check_time m) \<noteq> 0 \<and>
         (t - prev_check_time m = 0 \<or> 1 \<le> t - prev_check_time m \<longrightarrow>
            network_sent_speed (current_metrics (snd (check_network io t n1 n2 m))) =
              spec_rate (bytes_sent io) (bytes_sent (prev_net_io m)) (t - prev_check_time m) \<and>
            network_recv_speed (current_metrics (snd (check_network io t n1 n2 m))) =
              spec_rate (bytes_recv io) (bytes_recv (prev_net_io m)) (t - prev_check_time m))"
  using assms
  by (auto simp add: check_network_def network_speeds_def spec_rate_def Let_def max_def)

theorem network_rate_divisor_witness:
  "get_default (network_enabled (config example_monitor)) True \<and>
   network_sent_speed (current_metrics (snd (check_network \<lparr>bytes_sent = 20971520, bytes_recv = 0\<rparr>
       1001 example_now example_now example_monitor))) = 20 \<and>
   spec_rate 20971520 0 1 = 20"
  using network_rate_divisor [of example_monitor "\<lparr>bytes_sent = 20971520, bytes_recv = 0\<rparr>" 1001
      example_now example_now]
  by (simp add: example_monitor_def example_config_def fresh_monitor_def get_default_def spec_rate_def)

subsection \<open>Strict comparison with the threshold (claim C7)\<close>

text \<open>
  Claim C7: a reading exactly equal to the configured threshold produces no alert. For
  CPU and memory the check returns no alert; a mount whose usage equals the threshold
  adds nothing to the alerts of the other mounts; a send (receive) rate equal to its
  threshold produces no alert for the outgoing (incoming) traffic. The thresholds are
  arbitrary, so a threshold of 100 never triggers on a reading of 100.
\<close>

theorem threshold_equal_no_alert:
  "fst (check_cpu (get_default (cpu_threshold (config m)) 80) now m) = [] \<and>
   fst (check_memory (get_default (memory_threshold (config m)) 80) now m) = [] \<and>
   fst (check_disk (ps1 @ (mountpoint, Inr (get_default (disk_threshold (config m)) 80), now) # ps2) m) =
     fst (check_disk (ps1 @ ps2) m) \<and>
   (fst (network_speeds io t m) = get_default (threshold_sent_mbps (config m)) 10 \<longrightarrow>
      resource_net_sent \<notin> set (map resource (fst (check_network io t n1 n2 m)))) \<and>
   (snd (network_speeds io t m) = get_default (threshold_recv_mbps (config m)) 10 \<longrightarrow>
      resource_net_recv \<notin> set (map resource (fst (check_network io t n1 n2 m))))"
proof -
  have cpu: "fst (check_cpu (get_default (cpu_threshold (config m)) 80) now m) = []"
    by (simp add: check_cpu_def Let_def)
  have mem: "fst (check_memory (get_default (memory_threshold (config m)) 80) now m) = []"
    by (simp add: check_memory_def Let_def)
  have disk: "fst (check_disk (ps1 @ (mountpoint, Inr (get_default (disk_threshold (config m)) 80), now) # ps2) m) =
      fst (check_disk (ps1 @ ps2) m)"
    by (simp add: check_disk_alerts partition_alerts_def)
  have sent: "resource_net_sent \<notin> set (map resource (fst (check_network io t n1 n2 m)))"
    if "fst (network_speeds io t m) = get_default (threshold_sent_mbps (config m)) 10"
    using that resource_net_distinct
    by (auto simp add: check_network_def Let_def split: prod.splits)
  have recv: "resource_net_recv \<notin> set (map resource (fst (check_network io t n1 n2 m)))"
    if "snd (network_speeds io t m) = get_default (threshold_recv_mbps (config m)) 10"
    using that resource_net_distinct
    by (auto simp add: check_network_def Let_def split: prod.splits)
  from cpu mem disk sent recv show ?thesis by blast
qed

theorem threshold_equal_no_alert_witness:
  "fst (check_cpu 80 example_now example_monitor) = [] \<and>
   fst (check_memory 80 example_now example_monitor) = [] \<and>
   fst (check_disk [(''/'', Inr 80, example_now)] example_monitor) = [] \<and>
   fst (network_speeds \<lparr>bytes_sent = 10485760, bytes_recv = 10485760\<rparr> 1001 example_monitor) = 10 \<and>
   snd (network_speeds \<lparr>bytes_sent = 10485760, bytes_recv = 10485760\<rparr> 1001 example_monitor) = 10 \<and>
   fst (check_network \<lparr>bytes_sent = 10485760, bytes_recv = 10485760\<rparr> 1001 example_now example_now
          example_monitor) = []"
  using threshold_equal_no_alert [of example_monitor example_now "[]" "''/''" "[]"
      "\<lparr>bytes_sent = 10485760, bytes_recv = 10485760\<rparr>" 1001 example_now example_now]
  by (simp add: check_network_def check_disk_def network_speeds_def example_monitor_def example_config_def
      fresh_monitor_def get_default_def Let_def)

subsection \<open>Severity tiers (claim C8)\<close>

text \<open>
  Claim C8: a breaching CPU, memory or disk reading yields one alert whose level is
  \<open>CRITICAL\<close> when the reading is strictly greater than 90 and \<open>WARNING\<close> otherwise,
  every alert of \<open>check_disk\<close> has the level that its observed value gives by this rule,
  and every alert of \<open>check_network\<close> has the level \<open>WARNING\<close>.
\<close>

theorem severity_tiers:
  "(get_default (cpu_enabled (config m)) True \<and> get_default (cpu_threshold (config m)) 80 < x \<longrightarrow>
      map level (fst (check_cpu x now m)) = [if x > 90 then CRITICAL else WARNING]) \<and>
   (get_default (memory_enabled (config m)) True \<and> get_default (memory_threshold (config m)) 80 < x \<longrightarrow>
      map level (fst (check_memory x now m)) = [if x > 90 then CRITICAL else WARNING]) \<and>
   (get_default (disk_enabled (config m)) True \<and>
    (mountpoint \<in> set (get_default (disk_paths (config m)) [''/'']) \<or>
     get_default (disk_paths (config m)) [''/''] = []) \<and>
    get_default (disk_threshold (config m)) 80 < x \<longrightarrow>
      map level (fst (check_disk [(mountpoint, Inr x, now)] m)) = [if x > 90 then CRITICAL else WARNING]) \<and>
   list_all (\<lambda>a. level a = (if alert_value a > 90 then CRITICAL else WARNING)) (fst (check_disk ps m)) \<and>
   list_all (\<lambda>a. level a = WARNING) (fst (check_network io t n1 n2 m))"
proof -
  have cpu: "map level (fst (check_cpu x now m)) = [if x > 90 then CRITICAL else WARNING]"
    if "get_default (cpu_enabled (config m)) True" "get_default (cpu_threshold (config m)) 80 < x"
    using that by (simp add: check_cpu_def Let_def)
  have mem: "map level (fst (check_memory x now m)) = [if x > 90 then CRITICAL else WARNING]"
    if "get_default (memory_enabled (config m)) True" "get_default (memory_threshold (config m)) 80 < x"
    using that by (simp add: check_memory_def Let_def)
  have disk1: "map level (fst (check_disk [(mountpoint, Inr x, now)] m)) =
      [if x > 90 then CRITICAL else WARNING]"
    if "get_default (disk_enabled (config m)) True"
      "mountpoint \<in> set (get_default (disk_paths (config m)) [''/'']) \<or>
       get_default (disk_paths (config m)) [''/''] = []"
      "get_default (disk_threshold (config m)) 80 < x"
    using that by (auto simp add: check_disk_alerts partition_alerts_def)
  have disk: "list_all (\<lambda>a. level a = (if alert_value a > 90 then CRITICAL else WARNING))
      (fst (check_disk ps m))"
    by (simp add: check_disk_alerts partition_alerts_level)
  have net: "list_all (\<lambda>a. level a = WARNING) (fst (check_network io t n1 n2 m))"
    by (simp add: check_network_def Let_def split: prod.split)
  from cpu mem disk1 disk net show ?thesis by blast
qed

theorem severity_tiers_witness:
  "map level (fst (check_cpu 85 example_now example_monitor)) = [WARNING] \<and>
   map level (fst (check_cpu 95 example_now example_monitor)) = [CRITICAL] \<and>
   map level (fst (check_memory 91 example_now example_monitor)) = [CRITICAL] \<and>
   map level (fst (check_disk [(''/'', Inr 90, example_now)] example_monitor)) = [WARNING] \<and>
   map level (fst (check_network \<lparr>bytes_sent = 104857600000, bytes_recv = 0\<rparr> 1001 example_now
        example_now example_monitor)) = [WARNING]"
  using severity_tiers [where m = example_monitor and x = 85 and mountpoint = "''/''"
      and now = example_now and ps = "[]" and io = "\<lparr>bytes_sent = 104857600000, bytes_recv = 0\<rparr>"
      and t = 1001 and ?n1.0 = example_now and ?n2.0 = example_now]
    severity_tiers [where m = example_monitor and x = 95 and mountpoint = "''/''"
      and now = example_now and ps = "[]" and io = "\<lparr>bytes_sent = 104857600000, bytes_recv = 0\<rparr>"
      and t = 1001 and ?n1.0 = example_now and ?n2.0 = example_now]
  by (simp add: check_cpu_def check_memory_def check_disk_def check_network_def network_speeds_def
      example_monitor_def example_config_def fresh_monitor_def get_default_def Let_def)

subsection \<open>A mount that cannot be read (claim C9)\<close>

text \<open>
  Claim C9: a mount whose usage read raises a permission error is skipped. The check
  returns, and it returns the alerts and the monitor that it returns without that mount:
  every other partition, before and after it, is evaluated as before.
\<close>

theorem disk_permission_error_skipped:
  "check_disk (ps1 @ (mountpoint, Inl PermissionError, now) # ps2) m = check_disk (ps1 @ ps2) m"
  by (simp add: check_disk_def check_partitions_append split: prod.split)

theorem disk_permission_error_skipped_witness:
  "fst (check_disk [(''/'', Inl PermissionError, example_now), (''/data'', Inr 95, example_now)]
          (example_monitor\<lparr>config := example_config\<lparr>disk_paths := Some []\<rparr>\<rparr>)) =
     [\<lparr>level = CRITICAL, resource = resource_disk_prefix @ ''/data'', message = message_disk,
       alert_value = 95, threshold = 80, timestamp = example_now\<rparr>]"
  using disk_permission_error_skipped [of "[]" "''/''" example_now "[(''/data'', Inr 95, example_now)]"
      "example_monitor\<lparr>config := example_config\<lparr>disk_paths := Some []\<rparr>\<rparr>"]
  by (simp add: check_disk_def example_monitor_def example_config_def fresh_monitor_def get_default_def)

subsection \<open>Levels produced by the checks (claim C10)\<close>

text \<open>
  Claim C10: every alert that \<open>check_cpu\<close>, \<open>check_memory\<close>, \<open>check_disk\<close> or
  \<open>check_network\<close> returns has the level \<open>WARNING\<close> or \<open>CRITICAL\<close>; \<open>INFO\<close> and \<open>ERROR\<close>
  are never produced.
\<close>

theorem alerts_warning_or_critical:
  "list_all (\<lambda>a. level a = WARNING \<or> level a = CRITICAL) (fst (check_cpu x now m)) \<and>
   list_all (\<lambda>a. level a = WARNING \<or> level a = CRITICAL) (fst (check_memory x now m)) \<and>
   list_all (\<lambda>a. level a = WARNING \<or> level a = CRITICAL) (fst (check_disk ps m)) \<and>
   list_all (\<lambda>a. level a = WARNING \<or> level a = CRITICAL) (fst (check_network io t n1 n2 m))"
proof -
  have disk: "list_all (\<lambda>a. level a = WARNING \<or> level a = CRITICAL)
      (concat (map (partition_alerts thr paths) ps))" for thr paths
    by (induction ps) (auto simp add: partition_alerts_def split: sum.split)
  show ?thesis
    by (simp add: check_cpu_def check_memory_def check_network_def check_disk_alerts disk Let_def
        split: prod.split)
qed

theorem alerts_warning_or_critical_witness:
  "list_all (\<lambda>a. level a = WARNING \<or> level a = CRITICAL)
     (fst (check_cpu 95 example_now example_monitor)) \<and>
   fst (check_cpu 95 example_now example_monitor) \<noteq> [] \<and>
   list_all (\<lambda>a. level a = WARNING \<or> level a = CRITICAL)
     (fst (check_disk [(''/'', Inr 85, example_now)] example_monitor)) \<and>
   fst (check_disk [(''/'', Inr 85, example_now)] example_monitor) \<noteq> []"
  using alerts_warning_or_critical [where x = 95 and now = example_now and m = example_monitor
      and ps = "[(''/'', Inr 85, example_now)]"]
  by (simp add: check_cpu_def check_disk_def example_monitor_def example_config_def fresh_monitor_def
      get_default_def Let_def)

end
